theory Spec2Isabelle
  imports Complex_Main "HOL-Library.Word"
begin

section \<open>Host values\<close>

text \<open>
  JavaScript values as far as the three scripts handle them: the results of
  \<open>JSON.parse\<close>, the bodies given to \<open>JSON.stringify\<close>, and \<open>undefined\<close> for a
  property that is absent. A number is the real it stands for.
\<close>

datatype js =
    JUndefined
  | JNull
  | JBool bool
  | JNum real
  | JStr string
  | JArr "js list"
  | JObj "(string \<times> js) list"

text \<open>Truthiness, as \<open>if (v)\<close> tests it.\<close>

fun truthy :: "js \<Rightarrow> bool" where
  "truthy JUndefined = False"
| "truthy JNull = False"
| "truthy (JBool b) = b"
| "truthy (JNum n) = (n \<noteq> 0)"
| "truthy (JStr s) = (s \<noteq> [])"
| "truthy (JArr xs) = True"
| "truthy (JObj kvs) = True"

datatype failure = NetworkError | ParseError | TypeError

text \<open>
  Property read \<open>v.k\<close> for the keys the scripts read (\<open>error\<close>, \<open>like_count\<close>): a
  TypeError on \<open>null\<close> and \<open>undefined\<close>, the entry of an object (the last one when
  \<open>JSON.parse\<close> saw the key twice), \<open>undefined\<close> otherwise.
\<close>

fun get_prop :: "js \<Rightarrow> string \<Rightarrow> failure + js" where
  "get_prop JUndefined k = Inl TypeError"
| "get_prop JNull k = Inl TypeError"
| "get_prop (JObj kvs) k =
     (case map_of (rev kvs) k of None \<Rightarrow> Inr JUndefined | Some v \<Rightarrow> Inr v)"
| "get_prop v k = Inr JUndefined"

text \<open>The settled state of a \<open>fetch(...).then(response => response.json())\<close> chain.\<close>

datatype fetch_outcome = Rejected | Not_json | Parsed js

datatype request = POST string js

text \<open>Decimal rendering of the integers that are interpolated into template strings.\<close>

definition digit :: "nat \<Rightarrow> char" where
  "digit n = ''0123456789'' ! n"

fun decimal :: "nat \<Rightarrow> string" where
  "decimal n = (if n < 10 then [digit n] else decimal (n div 10) @ [digit (n mod 10)])"

declare decimal.simps [simp del]

definition show_int :: "int \<Rightarrow> string" where
  "show_int i = (if i < 0 then ''-'' @ decimal (nat (- i)) else decimal (nat i))"

datatype console_entry =
    Log string
  | Log_data js
  | Error_data js
  | Error_failure failure

definition log_outcome :: "fetch_outcome \<Rightarrow> console_entry" where
  "log_outcome out =
     (case out of
        Rejected \<Rightarrow> Error_failure NetworkError
      | Not_json \<Rightarrow> Error_failure ParseError
      | Parsed d \<Rightarrow> Log_data d)"

section \<open>Double arithmetic\<close>

text \<open>
  The numbers of \<open>card.js\<close> are IEEE 754 doubles: a literal is the double nearest to
  it, and \<open>-\<close> and \<open>*\<close> round the exact result to the nearest double, to the even
  significand on a tie. A double is modelled by the real it stands for. \<open>to_double\<close> is
  that rounding, with the 53 bit significand and the gradual underflow below
  \<open>2^-1022\<close>; it holds for results below \<open>2^1024\<close> in size, where a double does
  not overflow (coordinates and widths of a viewport are far below). The two operators
  read their operands as doubles first, which changes nothing when they are doubles.
\<close>

fun bitlength :: "nat \<Rightarrow> nat" where
  "bitlength n = (if n = 0 then 0 else Suc (bitlength (n div 2)))"

declare bitlength.simps [simp del]

definition pow2 :: "int \<Rightarrow> real" where
  "pow2 e = (if 0 \<le> e then 2 ^ nat e else 1 / 2 ^ nat (- e))"

text \<open>The exponent of a positive real: the integer part of its binary logarithm.\<close>

definition ilog2 :: "real \<Rightarrow> int" where
  "ilog2 y =
     (if 1 \<le> y then int (bitlength (nat \<lfloor>y\<rfloor>)) - 1
      else - int (bitlength (nat (\<lceil>1 / y\<rceil> - 1))))"

definition round_half_even :: "real \<Rightarrow> int" where
  "round_half_even q =
     (let f = \<lfloor>q\<rfloor>; r = q - of_int f
      in if r < 1 / 2 then f else if 1 / 2 < r then f + 1 else if even f then f else f + 1)"

definition to_double :: "real \<Rightarrow> real" where
  "to_double x =
     (if x = 0 then 0
      else (let e = max (ilog2 \<bar>x\<bar>) (- 1022) - 52
            in of_int (round_half_even (x / pow2 e)) * pow2 e))"

definition js_minus :: "real \<Rightarrow> real \<Rightarrow> real" where
  "js_minus a b = to_double (to_double a - to_double b)"

definition js_times :: "real \<Rightarrow> real \<Rightarrow> real" where
  "js_times a b = to_double (to_double a * to_double b)"

text \<open>The literals \<open>0.7\<close> and \<open>0.1\<close>.\<close>

definition double_07 :: real where
  "double_07 = to_double (7 / 10)"

definition double_01 :: real where
  "double_01 = to_double (1 / 10)"

section \<open>card.js: the Card class\<close>

text \<open>
  An id is a string or a number; a numeric id is a safe integer (below \<open>2^53\<close>), which
  a double holds exactly and a template literal prints in plain decimal digits.
\<close>

datatype ident = IdStr string | IdNum "53 word"

text \<open>The template literal \<open>`${this.carID}`\<close>.\<close>

fun template :: "ident \<Rightarrow> string" where
  "template (IdStr s) = s"
| "template (IdNum n) = decimal (unat n)"

text \<open>
  \<open>style.transform\<close> is either the empty string or
  \<open>translate(Xpx, Ypx) rotate(Rdeg)\<close>; \<open>style.transition\<close> is unset or
  \<open>transform Ns\<close>.
\<close>

datatype css_transform = No_transform | Translate_rotate real real real

datatype css_transition = Unset | Transform_secs nat

datatype elem_event = E_mousedown | E_touchstart | E_dragstart

datatype doc_event = D_mouseup | D_mousemove | D_touchend | D_touchmove | D_cancel

datatype handler = HandleMoveUp | HandleMouseMove | HandleTouchEnd | HandleTouchMove

text \<open>
  What \<open>#isTouchDevice\<close> reads, and the two widths \<open>#handleMove\<close> and \<open>#dismiss\<close>
  read (whole numbers of pixels, never negative). They are kept apart: only the
  constructor sees the first.
\<close>

record navigator =
  ontouchstart_in_window :: bool
  maxTouchPoints :: "real option"
  msMaxTouchPoints :: "real option"

record viewport =
  innerWidth :: nat
  clientWidth :: nat

text \<open>
  A card object together with its element and with what it has registered on the host:
  its listeners on the document, its pending \<open>setTimeout\<close> delays, the requests it has
  sent and what it has written to the console. The callbacks act on a state \<open>'g\<close> outside
  the card. The private offsets are read only after \<open>#handleMove\<close> has written them, so
  their value before that (\<open>undefined\<close>) is modelled as 0.
\<close>

record 'g card =
  carID :: ident
  imageUrl :: string
  carName :: string
  details :: string
  onDismiss :: "('g \<Rightarrow> 'g) option"
  onLike :: "('g \<Rightarrow> 'g) option"
  onDislike :: "('g \<Rightarrow> 'g) option"
  startPoint :: "(real \<times> real) option"
  offsetX :: real
  offsetY :: real
  data_carID :: string
  img_alt :: string
  img_src :: string
  name_text :: string
  details_text :: string
  transform :: css_transform
  transition :: css_transition
  dismissing :: bool
  in_tree :: bool
  stack_index :: "nat option"
  elem_listeners :: "elem_event list"
  doc_listeners :: "(doc_event \<times> handler) list"
  timers :: "nat list"
  requests :: "request list"
  console :: "console_entry list"

record 'g card_args =
  arg_carID :: ident
  arg_imageUrl :: string
  arg_carName :: string
  arg_details :: string
  arg_onDismiss :: "('g \<Rightarrow> 'g) option"
  arg_onLike :: "('g \<Rightarrow> 'g) option"
  arg_onDislike :: "('g \<Rightarrow> 'g) option"

text \<open>A listener list holds a listener at most once; removing an absent one does nothing.\<close>

definition addEventListener :: "'a \<Rightarrow> 'a list \<Rightarrow> 'a list" where
  "addEventListener l ls = (if l \<in> set ls then ls else ls @ [l])"

definition removeEventListener :: "'a \<Rightarrow> 'a list \<Rightarrow> 'a list" where
  "removeEventListener l ls = removeAll l ls"

definition positive :: "real option \<Rightarrow> bool" where
  "positive n = (case n of None \<Rightarrow> False | Some k \<Rightarrow> k > 0)"

definition isTouchDevice :: "navigator \<Rightarrow> bool" where
  "isTouchDevice nav =
     (ontouchstart_in_window nav \<or> positive (maxTouchPoints nav)
      \<or> positive (msMaxTouchPoints nav))"

definition listenToTouchEvents :: "'g card \<Rightarrow> 'g card" where
  "listenToTouchEvents c =
     c\<lparr>elem_listeners := addEventListener E_touchstart (elem_listeners c),
       doc_listeners :=
         addEventListener (D_cancel, HandleTouchEnd)
           (addEventListener (D_touchend, HandleTouchEnd) (doc_listeners c))\<rparr>"

definition listenToMouseEvents :: "'g card \<Rightarrow> 'g card" where
  "listenToMouseEvents c =
     c\<lparr>elem_listeners :=
         addEventListener E_dragstart (addEventListener E_mousedown (elem_listeners c)),
       doc_listeners := addEventListener (D_mouseup, HandleMoveUp) (doc_listeners c)\<rparr>"

text \<open>The constructor followed by \<open>#init\<close>.\<close>

definition new_card :: "navigator \<Rightarrow> 'g card_args \<Rightarrow> 'g card" where
  "new_card nav a =
     (let c = \<lparr>carID = arg_carID a, imageUrl = arg_imageUrl a, carName = arg_carName a,
               details = arg_details a, onDismiss = arg_onDismiss a,
               onLike = arg_onLike a, onDislike = arg_onDislike a,
               startPoint = None, offsetX = 0, offsetY = 0,
               data_carID = template (arg_carID a),
               img_alt = ''Image of '' @ arg_carName a,
               img_src = ''/static/cars/'' @ arg_imageUrl a @ ''.jpg'',
               name_text = arg_carName a, details_text = arg_details a,
               transform = No_transform, transition = Unset, dismissing = False,
               in_tree = False, stack_index = None,
               elem_listeners = [], doc_listeners = [], timers = [], requests = [],
               console = []\<rparr>
      in if isTouchDevice nav then listenToTouchEvents c else listenToMouseEvents c)"

text \<open>The two drag-start listeners bound on the element.\<close>

definition on_touchstart :: "(real \<times> real) option \<Rightarrow> 'g card \<Rightarrow> 'g card" where
  "on_touchstart touch c =
     (case touch of
        None \<Rightarrow> c
      | Some p \<Rightarrow>
          c\<lparr>startPoint := Some p,
            doc_listeners := addEventListener (D_touchmove, HandleTouchMove) (doc_listeners c),
            transition := Transform_secs 0\<rparr>)"

definition on_mousedown :: "real \<Rightarrow> real \<Rightarrow> 'g card \<Rightarrow> 'g card" where
  "on_mousedown x y c =
     c\<lparr>startPoint := Some (x, y),
       doc_listeners := addEventListener (D_mousemove, HandleMouseMove) (doc_listeners c),
       transition := Transform_secs 0\<rparr>"

definition invoke :: "('g \<Rightarrow> 'g) option \<Rightarrow> 'g \<Rightarrow> 'g" where
  "invoke f g = (case f of None \<Rightarrow> g | Some h \<Rightarrow> h g)"

definition react_body :: "ident \<Rightarrow> bool \<Rightarrow> js" where
  "react_body i isLiked =
     JObj [(''carID'', JStr (template i)), (''swiped_right'', JBool isLiked)]"

definition dismiss :: "viewport \<Rightarrow> real \<Rightarrow> 'g card \<times> 'g \<Rightarrow> 'g card \<times> 'g" where
  "dismiss v direction s =
     (let c = fst s; g = snd s;
          isLiked = (direction = 1);
          c1 = c\<lparr>startPoint := None,
                 doc_listeners :=
                   removeEventListener (D_touchmove, HandleTouchMove)
                     (removeEventListener (D_touchend, HandleTouchEnd)
                       (removeEventListener (D_mousemove, HandleMouseMove)
                         (removeEventListener (D_mouseup, HandleMoveUp) (doc_listeners c)))),
                 transition := Transform_secs 1,
                 transform :=
                   Translate_rotate (direction * real (innerWidth v)) (offsetY c) (45 * direction),
                 dismissing := True,
                 timers := timers c @ [1000],
                 console := console c @ [Log ''About to send POST''],
                 requests := requests c @ [POST ''/react'' (react_body (carID c) isLiked)]\<rparr>;
          g1 = invoke (onDismiss c) g;
          g2 = (if direction = 1 then invoke (onLike c) g1 else g1);
          g3 = (if direction = - 1 then invoke (onDislike c) g2 else g2)
      in (c1, g3))"

text \<open>
  \<open>#handleMove\<close> reads \<open>this.#startPoint.x\<close> first; both callers return before the call
  when the anchor is absent, and a call without it would throw before any assignment.
\<close>

definition handleMove :: "viewport \<Rightarrow> real \<Rightarrow> real \<Rightarrow> 'g card \<times> 'g \<Rightarrow> 'g card \<times> 'g" where
  "handleMove v x y s =
     (case startPoint (fst s) of
        None \<Rightarrow> s
      | Some a \<Rightarrow>
          (let ox = js_minus x (fst a); oy = js_minus y (snd a);
               rotate = js_times ox double_01;
               c1 = (fst s)\<lparr>offsetX := ox, offsetY := oy,
                            transform := Translate_rotate ox oy rotate\<rparr>
           in if \<bar>ox\<bar> > js_times (real (clientWidth v)) double_07
              then dismiss v (if ox > 0 then 1 else - 1) (c1, snd s)
              else (c1, snd s)))"

definition handleMouseMove :: "viewport \<Rightarrow> real \<Rightarrow> real \<Rightarrow> 'g card \<times> 'g \<Rightarrow> 'g card \<times> 'g" where
  "handleMouseMove v x y s =
     (if startPoint (fst s) = None then s else handleMove v x y s)"

definition handleMoveUp :: "'g card \<Rightarrow> 'g card" where
  "handleMoveUp c =
     c\<lparr>startPoint := None,
       doc_listeners := removeEventListener (D_mousemove, HandleMouseMove) (doc_listeners c),
       transform := No_transform\<rparr>"

definition handleTouchMove ::
  "viewport \<Rightarrow> (real \<times> real) option \<Rightarrow> 'g card \<times> 'g \<Rightarrow> 'g card \<times> 'g" where
  "handleTouchMove v touch s =
     (if startPoint (fst s) = None then s
      else case touch of None \<Rightarrow> s | Some p \<Rightarrow> handleMove v (fst p) (snd p) s)"

definition handleTouchEnd :: "'g card \<Rightarrow> 'g card" where
  "handleTouchEnd c =
     c\<lparr>startPoint := None,
       doc_listeners := removeEventListener (D_touchmove, HandleTouchMove) (doc_listeners c),
       transform := No_transform\<rparr>"

text \<open>
  \<open>swiper.append(card.element)\<close> as the card sees it, the timer callback
  \<open>() => this.element.remove()\<close>, and the \<open>/react\<close> promise chain.
\<close>

definition append_element :: "'g card \<Rightarrow> 'g card" where
  "append_element c = c\<lparr>in_tree := True\<rparr>"

definition remove_element :: "'g card \<Rightarrow> 'g card" where
  "remove_element c = c\<lparr>in_tree := False\<rparr>"

definition react_settled :: "fetch_outcome \<Rightarrow> 'g card \<Rightarrow> 'g card" where
  "react_settled out c = c\<lparr>console := console c @ [log_outcome out]\<rparr>"

text \<open>
  Events of the host as one card sees them. Pointer events on the element reach its
  drag-start listener while the element is in the tree (a removed element cannot be hit),
  document events reach the handler the card has registered for them;
  \<open>Timeout\<close> runs the oldest pending timer and \<open>React_settled\<close> settles the oldest
  report. \<open>dragstart\<close> only has its default prevented. \<open>Cancel\<close> is the event named
  \<open>cancel\<close>, for which \<open>#listenToTouchEvents\<close> binds a listener; \<open>Touchcancel\<close> is the
  event a cancelled touch fires, for which the card binds none.
\<close>

datatype event =
    Mousedown real real
  | Mousemove real real
  | Mouseup
  | Touchstart "(real \<times> real) option"
  | Touchmove "(real \<times> real) option"
  | Touchend
  | Cancel
  | Touchcancel
  | Dragstart
  | Timeout
  | React_settled fetch_outcome

fun dispatch :: "viewport \<Rightarrow> event \<Rightarrow> 'g card \<times> 'g \<Rightarrow> 'g card \<times> 'g" where
  "dispatch v (Mousedown x y) s =
     (if in_tree (fst s) \<and> E_mousedown \<in> set (elem_listeners (fst s))
      then (on_mousedown x y (fst s), snd s) else s)"
| "dispatch v (Touchstart t) s =
     (if in_tree (fst s) \<and> E_touchstart \<in> set (elem_listeners (fst s))
      then (on_touchstart t (fst s), snd s) else s)"
| "dispatch v (Mousemove x y) s =
     (if (D_mousemove, HandleMouseMove) \<in> set (doc_listeners (fst s))
      then handleMouseMove v x y s else s)"
| "dispatch v Mouseup s =
     (if (D_mouseup, HandleMoveUp) \<in> set (doc_listeners (fst s))
      then (handleMoveUp (fst s), snd s) else s)"
| "dispatch v (Touchmove t) s =
     (if (D_touchmove, HandleTouchMove) \<in> set (doc_listeners (fst s))
      then handleTouchMove v t s else s)"
| "dispatch v Touchend s =
     (if (D_touchend, HandleTouchEnd) \<in> set (doc_listeners (fst s))
      then (handleTouchEnd (fst s), snd s) else s)"
| "dispatch v Cancel s =
     (if (D_cancel, HandleTouchEnd) \<in> set (doc_listeners (fst s))
      then (handleTouchEnd (fst s), snd s) else s)"
| "dispatch v Touchcancel s = s"
| "dispatch v Dragstart s = s"
| "dispatch v Timeout s =
     (case timers (fst s) of
        [] \<Rightarrow> s
      | t # ts \<Rightarrow> (remove_element ((fst s)\<lparr>timers := ts\<rparr>), snd s))"
| "dispatch v (React_settled out) s = (react_settled out (fst s), snd s)"

definition run :: "viewport \<Rightarrow> event list \<Rightarrow> 'g card \<times> 'g \<Rightarrow> 'g card \<times> 'g" where
  "run v evs s = fold (dispatch v) evs s"

section \<open>cardContainer.js: the deck\<close>

text \<open>
  What the callbacks of the container act on: the counter \<open>cardCount\<close>, the two
  indicator elements \<open>#like\<close> and \<open>#dislike\<close>, the \<open>display\<close> style of
  \<open>#no-more-cards-message\<close> (\<open>None\<close> when the page has no such element), the
  requests sent and the console.
\<close>

record page =
  cardCount :: int
  like_running :: bool
  like_trigger :: bool
  dislike_running :: bool
  dislike_trigger :: bool
  message_display :: "string option"
  page_requests :: "request list"
  page_console :: "console_entry list"

record car_data =
  cd_carID :: ident
  cd_imageUrl :: string
  cd_carName :: string
  cd_details :: string

text \<open>
  The cards created so far, in creation order. A card whose element has been removed
  stays in the list with \<open>in_tree\<close> false: its object is still reachable from the
  listeners it left behind.
\<close>

record deck =
  page :: page
  cards :: "page card list"

definition depleted :: request where
  "depleted = POST ''/cards-depleted'' (JObj [(''isEmpty'', JBool True)])"

definition cardsEmpty :: "page \<Rightarrow> page" where
  "cardsEmpty g =
     g\<lparr>page_console := page_console g @ [Log ''All cards have been swiped!''],
       page_requests := page_requests g @ [depleted]\<rparr>"

definition depleted_settled :: "fetch_outcome \<Rightarrow> page \<Rightarrow> page" where
  "depleted_settled out g =
     (case out of
        Parsed d \<Rightarrow>
          (let g1 = g\<lparr>page_console := page_console g @ [Log_data d]\<rparr>
           in case message_display g1 of
                None \<Rightarrow> g1\<lparr>page_console := page_console g1 @ [Error_failure TypeError]\<rparr>
              | Some _ \<Rightarrow> g1\<lparr>message_display := Some ''block''\<rparr>)
      | _ \<Rightarrow> g\<lparr>page_console := page_console g @ [log_outcome out]\<rparr>)"

text \<open>The three callbacks that \<open>appendNewCard\<close> passes to the card.\<close>

definition onDismiss_cb :: "page \<Rightarrow> page" where
  "onDismiss_cb g =
     (let g1 = g\<lparr>cardCount := cardCount g - 1\<rparr>;
          g2 = g1\<lparr>page_console :=
                    page_console g1 @ [Log (''cardCount: '' @ show_int (cardCount g1))]\<rparr>
      in if cardCount g2 \<le> 0 then cardsEmpty g2 else g2)"

definition onLike_cb :: "string \<Rightarrow> page \<Rightarrow> page" where
  "onLike_cb name g =
     g\<lparr>page_console := page_console g @ [Log (name @ '' liked'')],
       like_running := True,
       like_trigger := \<not> like_trigger g\<rparr>"

definition onDislike_cb :: "string \<Rightarrow> page \<Rightarrow> page" where
  "onDislike_cb name g =
     g\<lparr>page_console := page_console g @ [Log (name @ '' disliked'')],
       dislike_running := True,
       dislike_trigger := \<not> dislike_trigger g\<rparr>"

text \<open>
  \<open>swiper.querySelectorAll('.card:not(.dismissing)')\<close> followed by the \<open>forEach\<close> that
  sets \<open>--i\<close>: the cards in the tree without the class are numbered in order.
\<close>

fun reindex :: "nat \<Rightarrow> 'g card list \<Rightarrow> 'g card list" where
  "reindex k [] = []"
| "reindex k (c # cs) =
     (if in_tree c \<and> \<not> dismissing c
      then c\<lparr>stack_index := Some k\<rparr> # reindex (Suc k) cs
      else c # reindex k cs)"

definition appendNewCard :: "navigator \<Rightarrow> car_data \<Rightarrow> deck \<Rightarrow> deck" where
  "appendNewCard nav carData d =
     (let card = new_card nav
                   \<lparr>arg_carID = cd_carID carData, arg_imageUrl = cd_imageUrl carData,
                    arg_carName = cd_carName carData, arg_details = cd_details carData,
                    arg_onDismiss = Some onDismiss_cb,
                    arg_onLike = Some (onLike_cb (cd_carName carData)),
                    arg_onDislike = Some (onDislike_cb (cd_carName carData))\<rparr>;
          g1 = (page d)\<lparr>cardCount := cardCount (page d) + 1\<rparr>;
          g2 = g1\<lparr>page_console :=
                    page_console g1 @ [Log (''card'' @ show_int (cardCount g1) @ '' added'')]\<rparr>
      in \<lparr>page = g2, cards = reindex 0 (cards d @ [append_element card])\<rparr>)"

text \<open>The page before the script runs, and \<open>cars.forEach(appendNewCard)\<close>.\<close>

definition empty_deck :: deck where
  "empty_deck =
     \<lparr>page = \<lparr>cardCount = 0, like_running = False, like_trigger = False,
               dislike_running = False, dislike_trigger = False,
               message_display = Some ''none'', page_requests = [], page_console = []\<rparr>,
      cards = []\<rparr>"

definition load :: "navigator \<Rightarrow> car_data list \<Rightarrow> deck" where
  "load nav cars = fold (appendNewCard nav) cars empty_deck"

text \<open>
  An event at card \<open>i\<close>: the card's handlers run with the page as the state of its
  callbacks. A document event reaches every card, in creation order.
\<close>

definition deliver :: "viewport \<Rightarrow> nat \<Rightarrow> event \<Rightarrow> deck \<Rightarrow> deck" where
  "deliver v i ev d =
     (if i < length (cards d)
      then (let s = dispatch v ev (cards d ! i, page d)
            in \<lparr>page = snd s, cards = (cards d)[i := fst s]\<rparr>)
      else d)"

definition broadcast :: "viewport \<Rightarrow> event \<Rightarrow> deck \<Rightarrow> deck" where
  "broadcast v ev d = fold (\<lambda>i. deliver v i ev) [0..<length (cards d)] d"

datatype deck_event = At_card nat event | At_document event | Depleted_settled fetch_outcome

fun deck_step :: "viewport \<Rightarrow> deck_event \<Rightarrow> deck \<Rightarrow> deck" where
  "deck_step v (At_card i ev) d = deliver v i ev d"
| "deck_step v (At_document ev) d = broadcast v ev d"
| "deck_step v (Depleted_settled out) d = d\<lparr>page := depleted_settled out (page d)\<rparr>"

definition deck_run :: "viewport \<Rightarrow> deck_event list \<Rightarrow> deck \<Rightarrow> deck" where
  "deck_run v evs d = fold (deck_step v) evs d"

section \<open>ajax.js: the like button\<close>

text \<open>
  What \<open>document.querySelector\<close> answers for the selector that the listener builds
  from the id: it throws when the selector is not valid (an id with a quote in it), it
  returns \<open>null\<close>, or it returns the element. The answer is the host's and is part of
  the state; of the element, the value last assigned to its \<open>textContent\<close> is kept.
\<close>

datatype 'a lookup = Selector_error | No_element | Element 'a

text \<open>One \<open>.like-button\<close> with its two attributes and the lookup of its counter.\<close>

record like_widget =
  data_car_id :: "string option"
  data_liked :: "string option"
  likeCountDisplay :: "js lookup"
  widget_requests :: "request list"
  widget_console :: "console_entry list"

text \<open>String concatenation with an attribute that may be \<open>null\<close>.\<close>

definition attr_text :: "string option \<Rightarrow> string" where
  "attr_text a = (case a of None \<Rightarrow> ''null'' | Some s \<Rightarrow> s)"

definition bool_text :: "bool \<Rightarrow> string" where
  "bool_text b = (if b then ''true'' else ''false'')"

definition liked_flag :: "like_widget \<Rightarrow> bool" where
  "liked_flag w = (data_liked w = Some ''true'')"

text \<open>
  The synchronous part of the click listener: the lookup of the counter, then the
  request. When the lookup throws, the listener ends there and nothing is sent.
\<close>

definition click :: "like_widget \<Rightarrow> like_widget" where
  "click w =
     (case likeCountDisplay w of
        Selector_error \<Rightarrow> w
      | _ \<Rightarrow>
          w\<lparr>widget_requests :=
              widget_requests w
              @ [POST (''/toggle_count/'' @ attr_text (data_car_id w))
                   (JObj [(''liked'', JBool (\<not> liked_flag w))])]\<rparr>)"

text \<open>
  The promise chain of that click, with the \<open>liked\<close> and the \<open>likeCountDisplay\<close>
  (\<open>None\<close> for \<open>null\<close>) that the listener captured. Whatever throws inside \<open>then\<close>
  lands in \<open>catch\<close>.
\<close>

definition toggle_settled ::
  "bool \<Rightarrow> js option \<Rightarrow> fetch_outcome \<Rightarrow> like_widget \<Rightarrow> like_widget" where
  "toggle_settled liked display out w =
     (let fail = (\<lambda>e. w\<lparr>widget_console := widget_console w @ [e]\<rparr>)
      in case out of
           Rejected \<Rightarrow> fail (Error_failure NetworkError)
         | Not_json \<Rightarrow> fail (Error_failure ParseError)
         | Parsed d \<Rightarrow>
             (case get_prop d ''error'' of
                Inl e \<Rightarrow> fail (Error_failure e)
              | Inr err \<Rightarrow>
                  if truthy err then fail (Error_data err)
                  else (case display of
                          None \<Rightarrow> fail (Error_failure TypeError)
                        | Some _ \<Rightarrow>
                            (case get_prop d ''like_count'' of
                               Inl e \<Rightarrow> fail (Error_failure e)
                             | Inr n \<Rightarrow>
                                 w\<lparr>likeCountDisplay := Element n,
                                   data_liked := Some (bool_text (\<not> liked))\<rparr>))))"

text \<open>A click together with the settlement of its request.\<close>

definition click_settled :: "fetch_outcome \<Rightarrow> like_widget \<Rightarrow> like_widget" where
  "click_settled out w =
     (case likeCountDisplay w of
        Selector_error \<Rightarrow> click w
      | No_element \<Rightarrow> toggle_settled (liked_flag w) None out (click w)
      | Element t \<Rightarrow> toggle_settled (liked_flag w) (Some t) out (click w))"

section \<open>Vocabulary of the statements\<close>

text \<open>The two events that begin a gesture.\<close>

fun is_drag_start :: "event \<Rightarrow> bool" where
  "is_drag_start (Mousedown x y) = True"
| "is_drag_start (Touchstart t) = True"
| "is_drag_start ev = False"

text \<open>
  The family of a listener, by the event it is bound to: \<open>#listenToMouseEvents\<close> and the
  \<open>mousedown\<close> listener bind the mouse events, \<open>#listenToTouchEvents\<close> and the
  \<open>touchstart\<close> listener the touch events.
\<close>

datatype family = Mouse | Touch

fun elem_family :: "elem_event \<Rightarrow> family" where
  "elem_family E_mousedown = Mouse"
| "elem_family E_dragstart = Mouse"
| "elem_family E_touchstart = Touch"

fun doc_family :: "doc_event \<Rightarrow> family" where
  "doc_family D_mouseup = Mouse"
| "doc_family D_mousemove = Mouse"
| "doc_family D_touchend = Touch"
| "doc_family D_touchmove = Touch"
| "doc_family D_cancel = Touch"

definition families :: "'g card \<Rightarrow> family set" where
  "families c =
     elem_family ` set (elem_listeners c) \<union> (\<lambda>l. doc_family (fst l)) ` set (doc_listeners c)"

definition only_mouse :: "'g card \<Rightarrow> bool" where
  "only_mouse c \<longleftrightarrow>
     elem_listeners c = [E_mousedown, E_dragstart]
     \<and> set (doc_listeners c) \<subseteq> {(D_mouseup, HandleMoveUp), (D_mousemove, HandleMouseMove)}"

definition only_touch :: "'g card \<Rightarrow> bool" where
  "only_touch c \<longleftrightarrow>
     elem_listeners c = [E_touchstart]
     \<and> set (doc_listeners c)
         \<subseteq> {(D_touchend, HandleTouchEnd), (D_cancel, HandleTouchEnd),
            (D_touchmove, HandleTouchMove)}"

text \<open>Reading a string of decimal digits back.\<close>

definition digit_value :: "char \<Rightarrow> nat" where
  "digit_value ch = (if ch = CHR ''1'' then 1 else if ch = CHR ''2'' then 2
     else if ch = CHR ''3'' then 3 else if ch = CHR ''4'' then 4 else if ch = CHR ''5'' then 5
     else if ch = CHR ''6'' then 6 else if ch = CHR ''7'' then 7 else if ch = CHR ''8'' then 8
     else if ch = CHR ''9'' then 9 else 0)"

definition read_decimal :: "string \<Rightarrow> nat" where
  "read_decimal s = foldl (\<lambda>n ch. 10 * n + digit_value ch) 0 s"


section \<open>Example inputs\<close>

datatype callback = Dismissed | Liked | Disliked

definition traced_args :: "ident \<Rightarrow> callback list card_args" where
  "traced_args i =
     \<lparr>arg_carID = i, arg_imageUrl = ''golf'', arg_carName = ''Golf'', arg_details = ''1.4 TSI'',
      arg_onDismiss = Some (\<lambda>t. t @ [Dismissed]),
      arg_onLike = Some (\<lambda>t. t @ [Liked]),
      arg_onDislike = Some (\<lambda>t. t @ [Disliked])\<rparr>"

definition desktop :: navigator where
  "desktop = \<lparr>ontouchstart_in_window = False, maxTouchPoints = Some 0, msMaxTouchPoints = None\<rparr>"

definition phone :: navigator where
  "phone = \<lparr>ontouchstart_in_window = True, maxTouchPoints = Some 5, msMaxTouchPoints = None\<rparr>"

definition screen :: viewport where
  "screen = \<lparr>innerWidth = 1280, clientWidth = 100\<rparr>"

definition narrow_screen :: viewport where
  "narrow_screen = \<lparr>innerWidth = 360, clientWidth = 90\<rparr>"

definition mouse_card :: "callback list card \<times> callback list" where
  "mouse_card = (append_element (new_card desktop (traced_args (IdNum 7))), [])"

definition touch_card :: "callback list card \<times> callback list" where
  "touch_card = (append_element (new_card phone (traced_args (IdNum 7))), [])"

definition dragging_mouse_card :: "callback list card \<times> callback list" where
  "dragging_mouse_card = dispatch screen (Mousedown 0 0) mouse_card"

definition dragging_touch_card :: "callback list card \<times> callback list" where
  "dragging_touch_card = dispatch screen (Touchstart (Some (0, 0))) touch_card"

definition committed_mouse_card :: "callback list card \<times> callback list" where
  "committed_mouse_card = dispatch screen (Mousemove 80 5) dragging_mouse_card"

definition removed_mouse_card :: "callback list card \<times> callback list" where
  "removed_mouse_card = dispatch screen Timeout committed_mouse_card"

definition golf :: car_data where
  "golf = \<lparr>cd_carID = IdNum 1, cd_imageUrl = ''golf'', cd_carName = ''Golf'', cd_details = ''1.4 TSI''\<rparr>"

definition polo :: car_data where
  "polo = \<lparr>cd_carID = IdNum 2, cd_imageUrl = ''polo'', cd_carName = ''Polo'', cd_details = ''1.0''\<rparr>"

definition swiped_deck :: deck where
  "swiped_deck =
     deck_run screen [At_card 0 (Mousedown 0 0), At_document (Mousemove 80 0)]
       (load desktop [golf, polo])"

definition like_button :: like_widget where
  "like_button =
     \<lparr>data_car_id = Some ''3'', data_liked = Some ''false'',
      likeCountDisplay = Element (JStr ''4''), widget_requests = [], widget_console = []\<rparr>"

section \<open>Shared lemmas\<close>

lemmas listener_defs = addEventListener_def removeEventListener_def



lemma round_half_even_of_int: "round_half_even (of_int m) = m"
  by (simp add: round_half_even_def)


lemma bitlength_le: "n < 2 ^ k \<Longrightarrow> bitlength n \<le> k"
proof (induction k arbitrary: n)
  case 0
  then show ?case by (simp add: bitlength.simps)
next
  case (Suc k)
  show ?case
  proof (cases "n = 0")
    case True
    then show ?thesis by (simp add: bitlength.simps)
  next
    case False
    from Suc.prems have "n div 2 < 2 ^ k" by simp
    then have "bitlength (n div 2) \<le> k" by (rule Suc.IH)
    with False show ?thesis by (subst bitlength.simps) simp
  qed
qed

lemma bitlength_pos: "0 < n \<Longrightarrow> 0 < bitlength n"
  by (subst bitlength.simps) simp

text \<open>Whole numbers below \<open>2^53\<close> in size are doubles.\<close>

lemma to_double_of_int:
  assumes "\<bar>n\<bar> < 2 ^ 53"
  shows "to_double (of_int n) = of_int n"
proof (cases "n = 0")
  case True
  then show ?thesis by (simp add: to_double_def)
next
  case False
  define b where "b = bitlength (nat \<bar>n\<bar>)"
  have "nat \<bar>n\<bar> < 2 ^ 53" using assms by (simp add: nat_less_iff)
  then have b53: "b \<le> 53" unfolding b_def by (rule bitlength_le)
  have b1: "0 < b" unfolding b_def using False by (intro bitlength_pos) simp
  have ab: "\<bar>real_of_int n\<bar> = real_of_int \<bar>n\<bar>" by simp
  have "1 \<le> \<bar>n\<bar>" using False by simp
  then have one: "1 \<le> \<bar>real_of_int n\<bar>" unfolding ab by linarith
  have fl: "\<lfloor>\<bar>real_of_int n\<bar>\<rfloor> = \<bar>n\<bar>" unfolding ab by (rule floor_of_int)
  have il: "ilog2 \<bar>real_of_int n\<bar> = int b - 1"
    using one by (simp add: ilog2_def fl b_def)
  define k where "k = 53 - b"
  have e: "max (ilog2 \<bar>real_of_int n\<bar>) (- 1022) - 52 = - int k"
    using b53 b1 by (simp add: il k_def)
  have p: "pow2 (- int k) = 1 / 2 ^ k"
    by (auto simp: pow2_def)
  have q: "real_of_int n / pow2 (- int k) = of_int (n * 2 ^ k)" by (simp add: p)
  have "to_double (of_int n) = of_int (round_half_even (of_int (n * 2 ^ k))) * pow2 (- int k)"
    using False by (simp add: to_double_def Let_def e q del: of_int_mult of_int_power)
  also have "\<dots> = of_int (n * 2 ^ k) * pow2 (- int k)"
    by (simp only: round_half_even_of_int)
  also have "\<dots> = of_int n" by (simp add: p)
  finally show ?thesis .
qed

lemma to_double_numeral:
  "(numeral k :: int) < 9007199254740992 \<Longrightarrow> to_double (numeral k) = numeral k"
  "(numeral k :: int) < 9007199254740992 \<Longrightarrow> to_double (- numeral k) = - numeral k"
  "to_double 0 = 0" "to_double 1 = 1"
  using to_double_of_int [of "numeral k"] to_double_of_int [of "- numeral k"]
    to_double_of_int [of 0] to_double_of_int [of 1]
  by simp_all


lemma double_01_value: "double_01 = 3602879701896397 / 36028797018963968"
  by code_simp

lemma times_07_100: "js_times 100 double_07 = 70"
  by code_simp

lemma times_07_90: "js_times 90 double_07 = 8866461766385663 / 140737488355328"
  by code_simp

lemma times_07_350: "js_times 350 double_07 = 8620171161763839 / 35184372088832"
  by code_simp

lemma times_01_3: "js_times 3 double_01 = 1351079888211149 / 4503599627370496"
  by code_simp

lemma minus_03_01: "js_minus (3 / 10) (1 / 10) = 7205759403792793 / 36028797018963968"
  by code_simp



lemma digit_value_digit: "k < 10 \<Longrightarrow> digit_value (digit k) = k"
proof -
  assume "k < 10"
  then have "k \<in> {0, 1, 2, 3, 4, 5, 6, 7, 8, 9}" by auto
  then show ?thesis by (auto simp: digit_value_def digit_def)
qed

lemma read_decimal_snoc: "read_decimal (s @ [ch]) = 10 * read_decimal s + digit_value ch"
  by (simp add: read_decimal_def)

lemma read_decimal_decimal: "read_decimal (decimal n) = n"
proof (induction n rule: decimal.induct)
  case (1 n)
  show ?case
  proof (cases "n < 10")
    case True
    then show ?thesis
      by (subst decimal.simps) (simp add: read_decimal_def digit_value_digit)
  next
    case False
    with 1 have "read_decimal (decimal (n div 10)) = n div 10" by simp
    with False show ?thesis
      by (subst decimal.simps) (simp add: read_decimal_snoc digit_value_digit)
  qed
qed

lemmas handler_defs =
  on_mousedown_def on_touchstart_def handleMouseMove_def handleTouchMove_def handleMove_def
  handleMoveUp_def handleTouchEnd_def dismiss_def invoke_def remove_element_def
  react_settled_def Let_def

lemmas example_defs =
  mouse_card_def touch_card_def dragging_mouse_card_def dragging_touch_card_def
  committed_mouse_card_def removed_mouse_card_def
  traced_args_def desktop_def phone_def screen_def narrow_screen_def new_card_def
  append_element_def js_minus_def to_double_numeral times_07_100 times_07_90
  isTouchDevice_def positive_def listenToMouseEvents_def listenToTouchEvents_def
  listener_defs

lemmas deck_example_defs =
  swiped_deck_def deck_run_def load_def empty_deck_def appendNewCard_def deliver_def
  broadcast_def golf_def polo_def onDismiss_cb_def onLike_cb_def onDislike_cb_def
  cardsEmpty_def

lemma run_Nil: "run v [] s = s"
  by (simp add: run_def)

lemma run_Cons: "run v (x # xs) s = run v xs (dispatch v x s)"
  by (simp add: run_def)




lemma dispatch_in_tree: "in_tree (fst (dispatch v ev s)) \<Longrightarrow> in_tree (fst s)"
  by (cases ev) (auto simp: handler_defs split: if_splits option.splits list.splits)

lemma dispatch_elem_listeners: "elem_listeners (fst (dispatch v ev s)) = elem_listeners (fst s)"
  by (cases ev) (auto simp: handler_defs split: option.splits list.splits)

lemma dispatch_doc_listeners:
  "set (doc_listeners (fst (dispatch v ev s)))
   \<subseteq> set (doc_listeners (fst s))
     \<union> (if E_mousedown \<in> set (elem_listeners (fst s)) then {(D_mousemove, HandleMouseMove)}
        else {})
     \<union> (if E_touchstart \<in> set (elem_listeners (fst s)) then {(D_touchmove, HandleTouchMove)}
        else {})"
  by (cases ev)
     (auto simp: handler_defs listener_defs split: option.splits list.splits if_splits)

lemma reindex_length [simp]: "length (reindex k cs) = length cs"
  by (induction cs arbitrary: k) auto

lemma reindex_dismissing:
  "i < length cs \<Longrightarrow> dismissing (cs ! i) \<Longrightarrow> reindex k cs ! i = cs ! i"
proof (induction cs arbitrary: k i)
  case Nil
  then show ?case by simp
next
  case (Cons c cs)
  show ?case
  proof (cases i)
    case 0
    with Cons.prems show ?thesis by simp
  next
    case (Suc j)
    with Cons show ?thesis by simp
  qed
qed

lemma reindex_numbers:
  "map stack_index (filter (\<lambda>c. in_tree c \<and> \<not> dismissing c) (reindex k cs))
   = map Some [k ..< k + length (filter (\<lambda>c. in_tree c \<and> \<not> dismissing c) (reindex k cs))]"
proof (induction cs arbitrary: k)
  case Nil
  then show ?case by simp
next
  case (Cons c cs)
  show ?case
  proof (cases "in_tree c \<and> \<not> dismissing c")
    case True
    let ?n = "length (filter (\<lambda>c. in_tree c \<and> \<not> dismissing c) (reindex (Suc k) cs))"
    have "[k ..< Suc (k + ?n)] = k # [Suc k ..< Suc (k + ?n)]"
      by (rule upt_conv_Cons) simp
    with True show ?thesis using Cons.IH [of "Suc k"] by (simp del: upt_Suc)
  next
    case False
    then show ?thesis using Cons.IH [of k] by auto
  qed
qed

lemma appendNewCard_numbers:
  "map stack_index
     (filter (\<lambda>c. in_tree c \<and> \<not> dismissing c) (cards (appendNewCard nav cd dk)))
   = map Some [0 ..< length (filter (\<lambda>c. in_tree c \<and> \<not> dismissing c)
                               (cards (appendNewCard nav cd dk)))]"
  using reindex_numbers [of 0] by (simp add: appendNewCard_def Let_def)

section \<open>The deck-exhausted notification\<close>

lemma onDismiss_cb_step:
  "cardCount (onDismiss_cb g) = cardCount g - 1
   \<and> page_requests (onDismiss_cb g)
       = page_requests g @ (if cardCount g \<le> 1 then [depleted] else [])"
  by (simp add: onDismiss_cb_def cardsEmpty_def Let_def)

lemma onDismiss_cb_iterate:
  assumes "cardCount g = int n" and "0 < n"
  shows "cardCount ((onDismiss_cb ^^ k) g) = int n - int k
       \<and> page_requests ((onDismiss_cb ^^ k) g) = page_requests g @ replicate (Suc k - n) depleted"
proof (induction k)
  case 0
  with assms show ?case by simp
next
  case (Suc k)
  let ?g = "(onDismiss_cb ^^ k) g"
  have c: "cardCount ?g = int n - int k" using Suc by simp
  have r: "page_requests ?g = page_requests g @ replicate (Suc k - n) depleted" using Suc by simp
  show ?case
  proof (cases "Suc k < n")
    case True
    then have "\<not> cardCount ?g \<le> 1" using c by simp
    with True c r show ?thesis using onDismiss_cb_step [of ?g] by simp
  next
    case False
    then have le: "cardCount ?g \<le> 1" using c by simp
    from False have "Suc (Suc k) - n = Suc (Suc k - n)" by simp
    then have "replicate (Suc (Suc k) - n) depleted = replicate (Suc k - n) depleted @ [depleted]"
      by (simp add: replicate_append_same)
    with le c r show ?thesis using onDismiss_cb_step [of ?g] by simp
  qed
qed

lemma appendNewCard_page:
  "cardCount (page (appendNewCard nav cd d)) = cardCount (page d) + 1
   \<and> page_requests (page (appendNewCard nav cd d)) = page_requests (page d)"
  by (simp add: appendNewCard_def Let_def)

lemma fold_appendNewCard_page:
  "cardCount (page (fold (appendNewCard nav) cars d)) = cardCount (page d) + int (length cars)
   \<and> page_requests (page (fold (appendNewCard nav) cars d)) = page_requests (page d)"
  by (induction cars arbitrary: d) (simp_all add: appendNewCard_page)

lemma load_page:
  "cardCount (page (load nav cars)) = int (length cars) \<and> page_requests (page (load nav cars)) = []"
  using fold_appendNewCard_page [of nav cars empty_deck]
  by (simp add: load_def) (simp add: empty_deck_def)

text \<open>
  Claim C1, as the code has it. The \<open>onDismiss\<close> callback lowers \<open>cardCount\<close> by one and
  sends \<open>POST /cards-depleted\<close> whenever the new count is zero or below; no flag records
  that it has been sent. So for a deck loaded with at least one card, after \<open>k\<close>
  invocations the notification has been sent \<open>k + 1 - n\<close> times (\<open>n\<close> the number of
  cards): never before the last card, once with it, and once more with every redundant
  invocation.
\<close>

theorem onDismiss_notifies_at_or_below_zero:
  "cardCount (onDismiss_cb g) = cardCount g - 1
   \<and> page_requests (onDismiss_cb g)
       = page_requests g @ (if cardCount g - 1 \<le> 0 then [depleted] else [])
   \<and> (cars \<noteq> [] \<longrightarrow>
        page_requests ((onDismiss_cb ^^ k) (page (load nav cars)))
        = replicate (Suc k - length cars) depleted)"
proof (intro conjI impI)
  show "cardCount (onDismiss_cb g) = cardCount g - 1" using onDismiss_cb_step [of g] by simp
  show "page_requests (onDismiss_cb g)
          = page_requests g @ (if cardCount g - 1 \<le> 0 then [depleted] else [])"
    using onDismiss_cb_step [of g] by simp
next
  assume "cars \<noteq> []"
  then have "0 < length cars" by simp
  with onDismiss_cb_iterate [of "page (load nav cars)" "length cars" k] load_page [of nav cars]
  show "page_requests ((onDismiss_cb ^^ k) (page (load nav cars)))
        = replicate (Suc k - length cars) depleted" by simp
qed

theorem onDismiss_notifies_at_or_below_zero_witness:
  "[golf, polo] \<noteq> []
   \<and> page_requests ((onDismiss_cb ^^ 1) (page (load desktop [golf, polo]))) = []
   \<and> page_requests ((onDismiss_cb ^^ 2) (page (load desktop [golf, polo]))) = [depleted]
   \<and> page_requests ((onDismiss_cb ^^ 3) (page (load desktop [golf, polo]))) = [depleted, depleted]"
  using onDismiss_notifies_at_or_below_zero [of "page empty_deck" "[golf, polo]" 1 desktop]
    onDismiss_notifies_at_or_below_zero [of "page empty_deck" "[golf, polo]" 2 desktop]
    onDismiss_notifies_at_or_below_zero [of "page empty_deck" "[golf, polo]" 3 desktop]
  by (simp add: numeral_2_eq_2 numeral_3_eq_3)

text \<open>
  A deck of one card on a mouse host: the card is swiped right, and while its element is
  still in the tree it is pressed and swiped again. The notification goes out twice.
\<close>

theorem deck_notified_twice:
  "cardCount (page (load desktop [golf])) = 1
   \<and> in_tree (cards (deck_run screen [At_card 0 (Mousedown 0 0), At_document (Mousemove 80 0)]
                       (load desktop [golf])) ! 0)
   \<and> page_requests (page (deck_run screen
        [At_card 0 (Mousedown 0 0), At_document (Mousemove 80 0),
         At_card 0 (Mousedown 0 0), At_document (Mousemove 80 0)] (load desktop [golf])))
      = [depleted, depleted]
   \<and> page_requests ((onDismiss_cb ^^ 2) (page (load desktop [golf]))) = [depleted, depleted]"
  by (simp add: deck_example_defs example_defs handler_defs numeral_2_eq_2)

section \<open>Listeners after a commit and after a settle\<close>

lemma dismiss_doc_listeners:
  "set (doc_listeners (fst (dismiss v d s)))
   = set (doc_listeners (fst s))
     - {(D_mouseup, HandleMoveUp), (D_mousemove, HandleMouseMove), (D_touchend, HandleTouchEnd),
        (D_touchmove, HandleTouchMove)}"
  by (auto simp: dismiss_def Let_def listener_defs)

lemma dismiss_only_mouse: "only_mouse (fst s) \<Longrightarrow> doc_listeners (fst (dismiss v d s)) = []"
proof -
  assume "only_mouse (fst s)"
  then have "set (doc_listeners (fst (dismiss v d s))) = {}"
    using dismiss_doc_listeners [of v d s] unfolding only_mouse_def by auto
  then show ?thesis by simp
qed

text \<open>
  Claim C2, at the input where the code departs from it. On a touch host the card is
  dragged past the threshold. \<open>#dismiss\<close> removes \<open>mouseup\<close>, \<open>mousemove\<close>, \<open>touchend\<close>
  and \<open>touchmove\<close>, but the \<open>cancel\<close> listener that \<open>#listenToTouchEvents\<close> bound stays
  on the document; a later \<open>cancel\<close> event still runs \<open>#handleTouchEnd\<close> and resets the
  transform of the dismissed card.
\<close>

theorem touch_commit_leaves_cancel_listener:
  "dismissing (fst (run screen [Touchstart (Some (0, 0)), Touchmove (Some (80, 5))] touch_card))
   \<and> doc_listeners (fst (run screen [Touchstart (Some (0, 0)), Touchmove (Some (80, 5))] touch_card))
       = [(D_cancel, HandleTouchEnd)]
   \<and> transform (fst (run screen [Touchstart (Some (0, 0)), Touchmove (Some (80, 5))] touch_card))
       = Translate_rotate 1280 5 45
   \<and> transform
       (fst (run screen [Touchstart (Some (0, 0)), Touchmove (Some (80, 5)), Cancel] touch_card))
       = No_transform"
  by (simp add: run_def example_defs handler_defs)

text \<open>
  Claim C3, as the code has it. A drag-end event (\<open>mouseup\<close>, \<open>touchend\<close>) on a card
  whose end listener is bound (a card that has not committed) clears the anchor, removes
  the move listener of that family from the document and resets the transform to the
  empty one; nothing is sent and no callback runs. The end listener, bound by the
  constructor, stays bound.
\<close>

theorem drag_end_settles:
  "((D_mouseup, HandleMoveUp) \<in> set (doc_listeners cm) \<longrightarrow>
      (let r = dispatch v Mouseup (cm, g)
       in startPoint (fst r) = None
          \<and> (D_mousemove, HandleMouseMove) \<notin> set (doc_listeners (fst r))
          \<and> (D_mouseup, HandleMoveUp) \<in> set (doc_listeners (fst r))
          \<and> transform (fst r) = No_transform
          \<and> requests (fst r) = requests cm \<and> snd r = g))
   \<and> ((D_touchend, HandleTouchEnd) \<in> set (doc_listeners ct) \<longrightarrow>
      (let r = dispatch v Touchend (ct, g)
       in startPoint (fst r) = None
          \<and> (D_touchmove, HandleTouchMove) \<notin> set (doc_listeners (fst r))
          \<and> (D_touchend, HandleTouchEnd) \<in> set (doc_listeners (fst r))
          \<and> transform (fst r) = No_transform
          \<and> requests (fst r) = requests ct \<and> snd r = g))"
  by (simp add: Let_def handleMoveUp_def handleTouchEnd_def listener_defs)

theorem drag_end_settles_witness:
  "(D_mouseup, HandleMoveUp) \<in> set (doc_listeners (fst dragging_mouse_card))
   \<and> (D_touchend, HandleTouchEnd) \<in> set (doc_listeners (fst dragging_touch_card))
   \<and> startPoint (fst dragging_mouse_card) = Some (0, 0)
   \<and> startPoint (fst (dispatch screen Mouseup dragging_mouse_card)) = None
   \<and> doc_listeners (fst (dispatch screen Mouseup dragging_mouse_card)) = [(D_mouseup, HandleMoveUp)]
   \<and> startPoint (fst dragging_touch_card) = Some (0, 0)
   \<and> startPoint (fst (dispatch screen Touchend dragging_touch_card)) = None
   \<and> doc_listeners (fst (dispatch screen Touchend dragging_touch_card))
       = [(D_touchend, HandleTouchEnd), (D_cancel, HandleTouchEnd)]"
  using drag_end_settles [where cm = "fst dragging_mouse_card" and v = screen and g = "[]"
      and ct = "fst dragging_touch_card"]
  by (simp add: example_defs handler_defs)

text \<open>
  A mouse card is dragged 30 pixels and released. The \<open>mouseup\<close> listener was bound
  before the gesture and is bound after it, and the transition is still the
  \<open>transform 0s\<close> that the drag-start set.
\<close>

theorem settle_keeps_end_listener:
  "(D_mouseup, HandleMoveUp) \<in> set (doc_listeners (fst mouse_card))
   \<and> (D_mouseup, HandleMoveUp)
       \<in> set (doc_listeners (fst (run screen [Mousedown 0 0, Mousemove 30 5, Mouseup] mouse_card)))
   \<and> transition (fst (run screen [Mousedown 0 0, Mousemove 30 5, Mouseup] mouse_card))
       = Transform_secs 0"
  by (simp add: run_def example_defs handler_defs)

section \<open>The threshold\<close>








section \<open>The callbacks of a commit\<close>

text \<open>
  Claim C5. A commit invokes \<open>onDismiss\<close> once and then exactly one of \<open>onLike\<close>
  (direction 1) and \<open>onDislike\<close> (direction -1), when the callbacks are supplied: the
  outside state after \<open>#dismiss\<close> is the state before it with \<open>onDismiss\<close> applied once
  and then the one callback of the direction applied once, whatever the three callbacks
  are. The same holds for the commit that a move past the threshold triggers (offset and
  threshold as the doubles the code computes).
\<close>

theorem dismiss_invokes_callbacks:
  assumes "onDismiss c = Some f" and "onLike c = Some l" and "onDislike c = Some k"
  shows "snd (dismiss v 1 (c, g)) = l (f g)
       \<and> snd (dismiss v (- 1) (c, g)) = k (f g)
       \<and> (startPoint c = Some a \<and> \<bar>js_minus x (fst a)\<bar> > js_times (real (clientWidth v)) double_07 \<longrightarrow>
            snd (handleMove v x y (c, g)) = (if js_minus x (fst a) > 0 then l else k) (f g))"
  using assms by (simp add: dismiss_def handleMove_def invoke_def Let_def)

theorem dismiss_invokes_callbacks_witness:
  "onDismiss (fst dragging_mouse_card) = Some (\<lambda>t. t @ [Dismissed])
   \<and> onLike (fst dragging_mouse_card) = Some (\<lambda>t. t @ [Liked])
   \<and> onDislike (fst dragging_mouse_card) = Some (\<lambda>t. t @ [Disliked])
   \<and> startPoint (fst dragging_mouse_card) = Some (0, 0)
   \<and> \<bar>js_minus (- 80) (fst (0 :: real, 0 :: real))\<bar> > js_times (real (clientWidth screen)) double_07
   \<and> snd (dismiss screen 1 (fst dragging_mouse_card, [])) = [Dismissed, Liked]
   \<and> snd (dismiss screen (- 1) (fst dragging_mouse_card, [])) = [Dismissed, Disliked]
   \<and> snd (handleMove screen (- 80) 5 (fst dragging_mouse_card, [])) = [Dismissed, Disliked]"
  using dismiss_invokes_callbacks
    [where c = "fst dragging_mouse_card" and f = "\<lambda>t. t @ [Dismissed]" and l = "\<lambda>t. t @ [Liked]"
       and k = "\<lambda>t. t @ [Disliked]" and v = screen and g = "[]" and a = "(0, 0)" and x = "- 80"
       and y = 5]
  by (simp add: example_defs on_mousedown_def)

section \<open>The outcome report\<close>

lemma decimal_digits: "set (decimal n) \<subseteq> set ''0123456789''"
proof (induction n rule: decimal.induct)
  case (1 n)
  have dg: "digit k \<in> set ''0123456789''" if "k < 10" for k
  proof -
    from that have "k \<in> {0, 1, 2, 3, 4, 5, 6, 7, 8, 9}" by auto
    then show ?thesis by (auto simp: digit_def)
  qed
  show ?case
  proof (cases "n < 10")
    case True
    then show ?thesis using dg [of n] by (subst decimal.simps) simp
  next
    case False
    with 1 have "set (decimal (n div 10)) \<subseteq> set ''0123456789''" by simp
    with False show ?thesis using dg [of "n mod 10"] by (subst decimal.simps) simp
  qed
qed

lemma digit_zero: "k < 10 \<Longrightarrow> digit k = CHR ''0'' \<Longrightarrow> k = 0"
  using digit_value_digit [of k] by (simp add: digit_value_def)

lemma decimal_canonical: "0 < n \<Longrightarrow> decimal n \<noteq> [] \<and> hd (decimal n) \<noteq> CHR ''0''"
proof (induction n rule: decimal.induct)
  case (1 n)
  show ?case
  proof (cases "n < 10")
    case True
    with "1.prems" show ?thesis using digit_zero [of n] by (subst (1 2) decimal.simps) auto
  next
    case False
    then have "0 < n div 10" by simp
    with 1 False have "decimal (n div 10) \<noteq> [] \<and> hd (decimal (n div 10)) \<noteq> CHR ''0''"
      by simp
    with False show ?thesis by (subst (1 2) decimal.simps) simp
  qed
qed

lemma decimal_zero: "decimal 0 = ''0''"
  by (simp add: decimal.simps digit_def)

lemma decimal_examples: "decimal 7 = ''7''" "decimal 1205 = ''1205''"
  by code_simp+

text \<open>
  Claim C6. Each commit sends exactly one \<open>POST /react\<close>, in \<open>#dismiss\<close> itself, whose
  body holds the card's id as a string and \<open>swiped_right = (direction = 1)\<close>: a string
  id as it is, a numeric id as its decimal digits, without a leading zero, which read
  back give the number. In the state that \<open>#dismiss\<close> returns, with the report not yet
  settled, the animation is set and the callbacks have run. The removal timer sends
  nothing. Settling the report, also as a failure, sends nothing again, leaves the state
  of the callbacks alone and changes nothing of the card but its console, where one
  entry is added.
\<close>

theorem react_report_once:
  "requests (fst (dismiss v d (c, g))) =
     requests c @ [POST ''/react''
       (JObj [(''carID'', JStr (template (carID c))), (''swiped_right'', JBool (d = 1))])]
   \<and> template (IdStr i) = i
   \<and> read_decimal (template (IdNum n)) = unat n
   \<and> set (template (IdNum n)) \<subseteq> set ''0123456789''
   \<and> (n = 0 \<and> template (IdNum n) = ''0''
        \<or> n \<noteq> 0 \<and> template (IdNum n) \<noteq> [] \<and> hd (template (IdNum n)) \<noteq> CHR ''0'')
   \<and> dismissing (fst (dismiss v d (c, g)))
   \<and> snd (dismiss v 1 (c, g)) = invoke (onLike c) (invoke (onDismiss c) g)
   \<and> snd (dismiss v (- 1) (c, g)) = invoke (onDislike c) (invoke (onDismiss c) g)
   \<and> requests (fst (dispatch v Timeout s)) = requests (fst s)
   \<and> requests (fst (dispatch v (React_settled out) s)) = requests (fst s)
   \<and> snd (dispatch v (React_settled out) s) = snd s
   \<and> (fst (dispatch v (React_settled out) s))\<lparr>console := console (fst s)\<rparr> = fst s
   \<and> console (fst (dispatch v (React_settled out) s)) = console (fst s) @ [log_outcome out]
   \<and> log_outcome Rejected = Error_failure NetworkError
   \<and> log_outcome Not_json = Error_failure ParseError"
proof -
  have ids: "template (IdStr i) = i
   \<and> read_decimal (template (IdNum n)) = unat n
   \<and> set (template (IdNum n)) \<subseteq> set ''0123456789''
   \<and> (n = 0 \<and> template (IdNum n) = ''0''
        \<or> n \<noteq> 0 \<and> template (IdNum n) \<noteq> [] \<and> hd (template (IdNum n)) \<noteq> CHR ''0'')"
  proof (intro conjI)
    show "template (IdStr i) = i" by simp
    show "read_decimal (template (IdNum n)) = unat n" by (simp add: read_decimal_decimal)
    show "set (template (IdNum n)) \<subseteq> set ''0123456789''"
      using decimal_digits [of "unat n"] by simp
    show "n = 0 \<and> template (IdNum n) = ''0''
        \<or> n \<noteq> 0 \<and> template (IdNum n) \<noteq> [] \<and> hd (template (IdNum n)) \<noteq> CHR ''0''"
    proof (cases "n = 0")
      case True
      then show ?thesis by (simp add: decimal_zero)
    next
      case False
      then have "0 < unat n" by (simp add: unat_gt_0)
      from decimal_canonical [OF this] False show ?thesis by simp
    qed
  qed
  have rest: "requests (fst (dismiss v d (c, g))) =
     requests c @ [POST ''/react''
       (JObj [(''carID'', JStr (template (carID c))), (''swiped_right'', JBool (d = 1))])]
   \<and> dismissing (fst (dismiss v d (c, g)))
   \<and> snd (dismiss v 1 (c, g)) = invoke (onLike c) (invoke (onDismiss c) g)
   \<and> snd (dismiss v (- 1) (c, g)) = invoke (onDislike c) (invoke (onDismiss c) g)
   \<and> requests (fst (dispatch v Timeout s)) = requests (fst s)
   \<and> requests (fst (dispatch v (React_settled out) s)) = requests (fst s)
   \<and> snd (dispatch v (React_settled out) s) = snd s
   \<and> (fst (dispatch v (React_settled out) s))\<lparr>console := console (fst s)\<rparr> = fst s
   \<and> console (fst (dispatch v (React_settled out) s)) = console (fst s) @ [log_outcome out]
   \<and> log_outcome Rejected = Error_failure NetworkError
   \<and> log_outcome Not_json = Error_failure ParseError"
    by (simp add: dismiss_def Let_def react_body_def react_settled_def remove_element_def
          log_outcome_def split: list.split)
  from ids rest show ?thesis by blast
qed

theorem react_report_once_witness:
  "requests (fst (dismiss screen 1 dragging_mouse_card)) =
     [POST ''/react'' (JObj [(''carID'', JStr ''7''), (''swiped_right'', JBool True)])]
   \<and> requests (fst (dismiss screen (- 1) ((fst dragging_mouse_card)\<lparr>carID := IdNum 1205\<rparr>, []))) =
     [POST ''/react'' (JObj [(''carID'', JStr ''1205''), (''swiped_right'', JBool False)])]
   \<and> requests (fst (dismiss screen 1 ((fst dragging_mouse_card)\<lparr>carID := IdStr ''vw-golf''\<rparr>, []))) =
     [POST ''/react'' (JObj [(''carID'', JStr ''vw-golf''), (''swiped_right'', JBool True)])]
   \<and> read_decimal ''1205'' = 1205
   \<and> requests (fst (dispatch screen (React_settled Rejected) (dismiss screen 1 dragging_mouse_card)))
     = [POST ''/react'' (JObj [(''carID'', JStr ''7''), (''swiped_right'', JBool True)])]
   \<and> console (fst (dispatch screen (React_settled Rejected) (dismiss screen 1 dragging_mouse_card)))
     = [Log ''About to send POST'', Error_failure NetworkError]"
  using react_report_once [where v = screen and d = 1 and c = "fst dragging_mouse_card"
      and g = "snd dragging_mouse_card" and s = "dismiss screen 1 dragging_mouse_card"
      and out = Rejected and i = "''vw-golf''" and n = 1205]
    react_report_once [where v = screen and d = "- 1"
      and c = "(fst dragging_mouse_card)\<lparr>carID := IdNum 1205\<rparr>" and g = "[]"
      and s = "dismiss screen 1 dragging_mouse_card" and out = Rejected and i = "''vw-golf''"
      and n = 1205]
    react_report_once [where v = screen and d = 1
      and c = "(fst dragging_mouse_card)\<lparr>carID := IdStr ''vw-golf''\<rparr>" and g = "[]"
      and s = "dismiss screen 1 dragging_mouse_card" and out = Rejected and i = "''vw-golf''"
      and n = 1205]
  by (simp add: example_defs handler_defs decimal_examples)

section \<open>After a commit\<close>

lemma run_not_in_tree: "\<not> in_tree (fst s) \<Longrightarrow> \<not> in_tree (fst (run v evs s))"
proof (induction evs arbitrary: s)
  case Nil
  then show ?case by (simp add: run_Nil)
next
  case (Cons ev evs)
  from Cons.prems have "\<not> in_tree (fst (dispatch v ev s))" using dispatch_in_tree by blast
  then show ?case by (simp only: run_Cons Cons.IH not_False_eq_True)
qed

lemma dispatch_idle:
  assumes "startPoint (fst s) = None" and "\<not> is_drag_start ev \<or> \<not> in_tree (fst s)"
  shows "startPoint (fst (dispatch v ev s)) = None
       \<and> requests (fst (dispatch v ev s)) = requests (fst s)
       \<and> snd (dispatch v ev s) = snd s"
  using assms
  by (cases ev)
     (auto simp: handleMouseMove_def handleTouchMove_def handleMoveUp_def handleTouchEnd_def
        remove_element_def react_settled_def split: list.splits)

lemma run_idle:
  assumes "startPoint (fst s) = None"
    and "(\<forall>ev\<in>set evs. \<not> is_drag_start ev) \<or> \<not> in_tree (fst s)"
  shows "startPoint (fst (run v evs s)) = None
       \<and> requests (fst (run v evs s)) = requests (fst s)
       \<and> snd (run v evs s) = snd s"
  using assms
proof (induction evs arbitrary: s)
  case Nil
  then show ?case by (simp add: run_Nil)
next
  case (Cons ev evs)
  let ?s = "dispatch v ev s"
  from Cons.prems have e: "\<not> is_drag_start ev \<or> \<not> in_tree (fst s)" by auto
  note st = dispatch_idle [OF Cons.prems(1) e, of v]
  have "(\<forall>ev\<in>set evs. \<not> is_drag_start ev) \<or> \<not> in_tree (fst ?s)"
    using Cons.prems(2) dispatch_in_tree [of v ev s] by auto
  with st have "startPoint (fst (run v evs ?s)) = None
       \<and> requests (fst (run v evs ?s)) = requests (fst ?s)
       \<and> snd (run v evs ?s) = snd ?s"
    by (intro Cons.IH) simp_all
  with st show ?case by (simp only: run_Cons)
qed

text \<open>
  Claim C7, as the code has it. \<open>#dismiss\<close> clears the anchor and schedules the removal,
  but leaves the element in the tree and its drag-start listener bound, so a drag-start
  right after the commit sets a new anchor. When a pending timer fires the element leaves
  the tree, and no event puts it back. From a state without anchor, no run of events
  commits again (nothing is sent, no callback runs, the anchor stays absent) provided no
  drag-start is among them or the element has already left the tree.
\<close>

theorem no_second_commit_without_drag_start:
  "startPoint (fst (dismiss v d s)) = None
   \<and> in_tree (fst (dismiss v d s)) = in_tree (fst s)
   \<and> elem_listeners (fst (dismiss v d s)) = elem_listeners (fst s)
   \<and> timers (fst (dismiss v d s)) = timers (fst s) @ [1000]
   \<and> (in_tree (fst s) \<and> E_mousedown \<in> set (elem_listeners (fst s)) \<longrightarrow>
        startPoint (fst (dispatch v (Mousedown x y) (dismiss v d s))) = Some (x, y))
   \<and> (in_tree (fst s) \<and> E_touchstart \<in> set (elem_listeners (fst s)) \<longrightarrow>
        startPoint (fst (dispatch v (Touchstart (Some p)) (dismiss v d s))) = Some p)
   \<and> (timers (fst s) \<noteq> [] \<longrightarrow> \<not> in_tree (fst (dispatch v Timeout s)))
   \<and> (\<not> in_tree (fst s) \<longrightarrow> \<not> in_tree (fst (run v evs s)))
   \<and> (startPoint (fst s) = None
        \<and> ((\<forall>ev\<in>set evs. \<not> is_drag_start ev) \<or> \<not> in_tree (fst s)) \<longrightarrow>
      startPoint (fst (run v evs s)) = None
      \<and> requests (fst (run v evs s)) = requests (fst s)
      \<and> snd (run v evs s) = snd s)"
proof (intro conjI impI)
  assume "in_tree (fst s) \<and> E_mousedown \<in> set (elem_listeners (fst s))"
  then show "startPoint (fst (dispatch v (Mousedown x y) (dismiss v d s))) = Some (x, y)"
    by (simp add: dismiss_def Let_def on_mousedown_def)
next
  assume "in_tree (fst s) \<and> E_touchstart \<in> set (elem_listeners (fst s))"
  then show "startPoint (fst (dispatch v (Touchstart (Some p)) (dismiss v d s))) = Some p"
    by (simp add: dismiss_def Let_def on_touchstart_def)
next
  show "startPoint (fst (dismiss v d s)) = None" by (simp add: dismiss_def Let_def)
  show "in_tree (fst (dismiss v d s)) = in_tree (fst s)" by (simp add: dismiss_def Let_def)
  show "elem_listeners (fst (dismiss v d s)) = elem_listeners (fst s)"
    by (simp add: dismiss_def Let_def)
  show "timers (fst (dismiss v d s)) = timers (fst s) @ [1000]" by (simp add: dismiss_def Let_def)
next
  assume "timers (fst s) \<noteq> []"
  then show "\<not> in_tree (fst (dispatch v Timeout s))"
    by (simp add: remove_element_def split: list.split)
next
  assume "\<not> in_tree (fst s)"
  then show "\<not> in_tree (fst (run v evs s))" by (rule run_not_in_tree)
next
  assume h: "startPoint (fst s) = None
        \<and> ((\<forall>ev\<in>set evs. \<not> is_drag_start ev) \<or> \<not> in_tree (fst s))"
  then have a: "startPoint (fst s) = None"
    and b: "(\<forall>ev\<in>set evs. \<not> is_drag_start ev) \<or> \<not> in_tree (fst s)" by simp_all
  from run_idle [OF a b, of v]
  show "startPoint (fst (run v evs s)) = None"
    and "requests (fst (run v evs s)) = requests (fst s)"
    and "snd (run v evs s) = snd s" by simp_all
qed

theorem no_second_commit_without_drag_start_witness:
  "timers (fst committed_mouse_card) \<noteq> [] \<and> in_tree (fst committed_mouse_card)
   \<and> \<not> in_tree (fst (dispatch screen Timeout committed_mouse_card))
   \<and> startPoint (fst committed_mouse_card) = None
   \<and> \<not> is_drag_start (Mousemove 90 9) \<and> \<not> is_drag_start Mouseup
   \<and> \<not> is_drag_start Timeout \<and> \<not> is_drag_start (Mousemove 200 0)
   \<and> snd (run screen [Mousemove 90 9, Mouseup, Timeout, Mousemove 200 0] committed_mouse_card)
       = [Dismissed, Liked]
   \<and> \<not> in_tree (fst removed_mouse_card) \<and> startPoint (fst removed_mouse_card) = None
   \<and> snd (run screen [Mousedown 0 0, Mousemove 90 0] removed_mouse_card) = [Dismissed, Liked]
   \<and> \<not> in_tree (fst (run screen [Mousedown 0 0, Mousemove 90 0] removed_mouse_card))
   \<and> in_tree (fst dragging_mouse_card)
   \<and> E_mousedown \<in> set (elem_listeners (fst dragging_mouse_card))
   \<and> startPoint (fst (dispatch screen (Mousedown 9 9) (dismiss screen 1 dragging_mouse_card)))
       = Some (9, 9)
   \<and> in_tree (fst dragging_touch_card)
   \<and> E_touchstart \<in> set (elem_listeners (fst dragging_touch_card))
   \<and> startPoint
        (fst (dispatch screen (Touchstart (Some (9, 9))) (dismiss screen 1 dragging_touch_card)))
       = Some (9, 9)"
  using no_second_commit_without_drag_start
      [where v = screen and d = 1 and s = committed_mouse_card
         and evs = "[Mousemove 90 9, Mouseup, Timeout, Mousemove 200 0]"]
    no_second_commit_without_drag_start
      [where v = screen and d = 1 and s = removed_mouse_card
         and evs = "[Mousedown 0 0, Mousemove 90 0]"]
    no_second_commit_without_drag_start
      [where v = screen and d = 1 and s = dragging_mouse_card and x = 9 and y = 9]
    no_second_commit_without_drag_start
      [where v = screen and d = 1 and s = dragging_touch_card and p = "(9, 9)"]
  by (simp add: example_defs handler_defs)

text \<open>
  A mouse card is swiped right; its element is still in the tree, with the class
  \<open>dismissing\<close>, when it is pressed again: the press sets a new anchor, and the next move
  past the threshold commits a second time.
\<close>

theorem second_commit_before_removal:
  "in_tree (fst (run screen [Mousedown 0 0, Mousemove 80 5] mouse_card))
   \<and> dismissing (fst (run screen [Mousedown 0 0, Mousemove 80 5] mouse_card))
   \<and> startPoint (fst (run screen [Mousedown 0 0, Mousemove 80 5, Mousedown 9 9] mouse_card))
       = Some (9, 9)
   \<and> snd (run screen [Mousedown 0 0, Mousemove 80 5, Mousedown 9 9, Mousemove 90 9] mouse_card)
       = [Dismissed, Liked, Dismissed, Liked]
   \<and> length (requests (fst (run screen
        [Mousedown 0 0, Mousemove 80 5, Mousedown 9 9, Mousemove 90 9] mouse_card))) = 2"
  by (simp add: run_def example_defs handler_defs)

section \<open>The exit animation\<close>

text \<open>
  Claim C8. A commit with direction \<open>d\<close> sets the transform to a translation by
  \<open>d\<close> times the viewport width, at the last vertical offset, with a rotation of
  \<open>45 d\<close> degrees, switches the transition to one second, adds the class
  \<open>dismissing\<close> and schedules one timer of 1000 ms, under no condition; when the timer
  fires the element leaves the tree. A card with the class keeps its index when a
  later card is appended: the numbering skips it and runs from 0 over the cards in the
  tree without the class.
\<close>

theorem dismiss_animation:
  "transform (fst (dismiss v d (c, g)))
     = Translate_rotate (d * real (innerWidth v)) (offsetY c) (45 * d)
   \<and> transition (fst (dismiss v d (c, g))) = Transform_secs 1
   \<and> dismissing (fst (dismiss v d (c, g)))
   \<and> timers (fst (dismiss v d (c, g))) = timers c @ [1000]
   \<and> (startPoint c = Some a \<and> \<bar>js_minus x (fst a)\<bar> > js_times (real (clientWidth v)) double_07 \<longrightarrow>
        transform (fst (handleMove v x y (c, g)))
        = Translate_rotate ((if js_minus x (fst a) > 0 then 1 else - 1) * real (innerWidth v)) (js_minus y (snd a))
            (45 * (if js_minus x (fst a) > 0 then 1 else - 1)))
   \<and> (timers (fst s) \<noteq> [] \<longrightarrow> \<not> in_tree (fst (dispatch v Timeout s)))
   \<and> (i < length (cards dk) \<and> dismissing (cards dk ! i) \<longrightarrow>
        cards (appendNewCard nav cd dk) ! i = cards dk ! i)
   \<and> map stack_index
        (filter (\<lambda>c. in_tree c \<and> \<not> dismissing c) (cards (appendNewCard nav cd dk)))
       = map Some [0 ..< length (filter (\<lambda>c. in_tree c \<and> \<not> dismissing c)
                                   (cards (appendNewCard nav cd dk)))]"
proof -
  have card: "transform (fst (dismiss v d (c, g)))
     = Translate_rotate (d * real (innerWidth v)) (offsetY c) (45 * d)
   \<and> transition (fst (dismiss v d (c, g))) = Transform_secs 1
   \<and> dismissing (fst (dismiss v d (c, g)))
   \<and> timers (fst (dismiss v d (c, g))) = timers c @ [1000]
   \<and> (startPoint c = Some a \<and> \<bar>js_minus x (fst a)\<bar> > js_times (real (clientWidth v)) double_07 \<longrightarrow>
        transform (fst (handleMove v x y (c, g)))
        = Translate_rotate ((if js_minus x (fst a) > 0 then 1 else - 1) * real (innerWidth v)) (js_minus y (snd a))
            (45 * (if js_minus x (fst a) > 0 then 1 else - 1)))
   \<and> (timers (fst s) \<noteq> [] \<longrightarrow> \<not> in_tree (fst (dispatch v Timeout s)))"
    by (simp add: dismiss_def handleMove_def Let_def remove_element_def split: list.split)
  have kept: "i < length (cards dk) \<and> dismissing (cards dk ! i) \<longrightarrow>
        cards (appendNewCard nav cd dk) ! i = cards dk ! i"
    by (simp add: appendNewCard_def Let_def reindex_dismissing nth_append)
  from card kept appendNewCard_numbers [of nav cd dk] show ?thesis by blast
qed

theorem dismiss_animation_witness:
  "startPoint (fst dragging_mouse_card) = Some (0, 0)
   \<and> \<bar>js_minus 80 (fst (0 :: real, 0 :: real))\<bar> > js_times (real (clientWidth screen)) double_07
   \<and> transform (fst (handleMove screen 80 5 dragging_mouse_card)) = Translate_rotate 1280 5 45
   \<and> (0 :: nat) < length (cards swiped_deck) \<and> dismissing (cards swiped_deck ! 0)
   \<and> stack_index (cards (appendNewCard desktop polo swiped_deck) ! 0) = Some 0
   \<and> map stack_index (cards (appendNewCard desktop polo swiped_deck)) = [Some 0, Some 0, Some 1]
   \<and> timers (fst (dismiss screen 1 dragging_mouse_card)) \<noteq> []
   \<and> in_tree (fst (dismiss screen 1 dragging_mouse_card))
   \<and> \<not> in_tree (fst (dispatch screen Timeout (dismiss screen 1 dragging_mouse_card)))"
  using dismiss_animation [where v = screen and d = 1 and c = "fst dragging_mouse_card"
      and g = "snd dragging_mouse_card" and a = "(0, 0)" and x = 80 and y = 5 and i = 0
      and dk = swiped_deck and nav = desktop and cd = polo
      and s = "dismiss screen 1 dragging_mouse_card"]
  by (simp add: example_defs deck_example_defs handler_defs decimal.simps digit_def show_int_def)

section \<open>One listener family\<close>

lemma only_mouse_dispatch: "only_mouse (fst s) \<Longrightarrow> only_mouse (fst (dispatch v ev s))"
  using dispatch_doc_listeners [of v ev s] dispatch_elem_listeners [of v ev s]
  unfolding only_mouse_def by auto

lemma only_touch_dispatch: "only_touch (fst s) \<Longrightarrow> only_touch (fst (dispatch v ev s))"
  using dispatch_doc_listeners [of v ev s] dispatch_elem_listeners [of v ev s]
  unfolding only_touch_def by auto

lemma only_mouse_run: "only_mouse (fst s) \<Longrightarrow> only_mouse (fst (run v evs s))"
  by (induction evs arbitrary: s) (simp_all add: run_Nil run_Cons only_mouse_dispatch)

lemma only_touch_run: "only_touch (fst s) \<Longrightarrow> only_touch (fst (run v evs s))"
  by (induction evs arbitrary: s) (simp_all add: run_Nil run_Cons only_touch_dispatch)

lemma only_mouse_families: "only_mouse c \<Longrightarrow> families c = {Mouse}"
  unfolding only_mouse_def families_def by auto

lemma only_touch_families: "only_touch c \<Longrightarrow> families c = {Touch}"
  unfolding only_touch_def families_def by auto

lemma new_card_only:
  "if isTouchDevice nav then only_touch (new_card nav a) else only_mouse (new_card nav a)"
  by (simp add: new_card_def Let_def listenToTouchEvents_def listenToMouseEvents_def
        only_touch_def only_mouse_def listener_defs)

text \<open>
  Claim C9. The constructor asks \<open>#isTouchDevice\<close> once and binds the listeners of one
  family; the handlers never read the capability, and after any run of events the
  listeners the card has bound, on its element and on the document, are of exactly that
  one family: touch if the host was a touch device when the card was built, mouse if not.
\<close>

theorem one_listener_family:
  "families (fst (run v evs (new_card nav a, g))) = {if isTouchDevice nav then Touch else Mouse}
   \<and> families (fst (run v evs (append_element (new_card nav a), g)))
       = {if isTouchDevice nav then Touch else Mouse}"
proof (cases "isTouchDevice nav")
  case True
  with new_card_only [of nav a] have t: "only_touch (new_card nav a)" by simp
  then have "only_touch (append_element (new_card nav a))"
    by (simp add: only_touch_def append_element_def)
  with t True show ?thesis
    using only_touch_run [of "(new_card nav a, g)" v evs]
      only_touch_run [of "(append_element (new_card nav a), g)" v evs]
    by (simp add: only_touch_families)
next
  case False
  with new_card_only [of nav a] have t: "only_mouse (new_card nav a)" by simp
  then have "only_mouse (append_element (new_card nav a))"
    by (simp add: only_mouse_def append_element_def)
  with t False show ?thesis
    using only_mouse_run [of "(new_card nav a, g)" v evs]
      only_mouse_run [of "(append_element (new_card nav a), g)" v evs]
    by (simp add: only_mouse_families)
qed

theorem one_listener_family_witness:
  "isTouchDevice phone \<and> \<not> isTouchDevice desktop
   \<and> families (fst (run screen
        [Touchstart (Some (0, 0)), Touchmove (Some (80, 5)), Touchend, Timeout] touch_card))
       = {Touch}
   \<and> families (fst (run screen [Mousedown 0 0, Mousemove 30 5, Mouseup] mouse_card)) = {Mouse}"
  using one_listener_family [where v = screen
        and evs = "[Touchstart (Some (0, 0)), Touchmove (Some (80, 5)), Touchend, Timeout]"
        and nav = phone and a = "traced_args (IdNum 7)" and g = "[]"]
    one_listener_family [where v = screen and evs = "[Mousedown 0 0, Mousemove 30 5, Mouseup]"
        and nav = desktop and a = "traced_args (IdNum 7)" and g = "[]"]
  by (simp add: touch_card_def mouse_card_def isTouchDevice_def phone_def desktop_def positive_def)

section \<open>The like button\<close>

text \<open>
  Claim C10, as the code has it. When the selector of the counter is not valid the
  listener throws before the request and nothing happens. Otherwise a click with liked
  flag \<open>b\<close> sends \<open>POST /toggle_count/{id}\<close> with body \<open>{liked: !b}\<close>, once, and
  nothing more when the response arrives. When the request fails, the body is not JSON,
  reading the \<open>error\<close> of the body throws (the body \<open>null\<close>), the \<open>error\<close> is truthy, or
  the \<open>error\<close> is absent or falsy but there is no counter element, one console entry is
  written and nothing else changes: the counter display and the flag stay as they were.
  When the \<open>error\<close> is absent or falsy and the counter element exists, the display
  becomes the \<open>like_count\<close> of the response and the flag becomes \<open>!b\<close>.
\<close>

theorem like_toggle_settlement:
  "(likeCountDisplay w = Selector_error \<longrightarrow> click w = w \<and> click_settled out w = w)
   \<and> (likeCountDisplay w \<noteq> Selector_error \<longrightarrow>
        widget_requests (click w)
          = widget_requests w @ [POST (''/toggle_count/'' @ attr_text (data_car_id w))
                                   (JObj [(''liked'', JBool (\<not> liked_flag w))])]
        \<and> widget_requests (click_settled out w) = widget_requests (click w))
   \<and> (likeCountDisplay w \<noteq> Selector_error
        \<and> (out = Rejected \<or> out = Not_json
             \<or> out = Parsed d \<and> get_prop d ''error'' = Inl f
             \<or> out = Parsed d \<and> get_prop d ''error'' = Inr e \<and> truthy e
             \<or> out = Parsed d \<and> get_prop d ''error'' = Inr e \<and> \<not> truthy e
                 \<and> likeCountDisplay w = No_element)
        \<longrightarrow>
        likeCountDisplay (click_settled out w) = likeCountDisplay w
        \<and> data_liked (click_settled out w) = data_liked w
        \<and> (click_settled out w)\<lparr>widget_console := widget_console w\<rparr> = click w
        \<and> length (widget_console (click_settled out w)) = Suc (length (widget_console w)))
   \<and> (out = Parsed d \<and> get_prop d ''error'' = Inr e \<and> \<not> truthy e
        \<and> get_prop d ''like_count'' = Inr n \<and> likeCountDisplay w = Element t \<longrightarrow>
        likeCountDisplay (click_settled out w) = Element n
        \<and> data_liked (click_settled out w) = Some (bool_text (\<not> liked_flag w))
        \<and> liked_flag (click_settled out w) = (\<not> liked_flag w)
        \<and> widget_console (click_settled out w) = widget_console w)
   \<and> (get_prop d ''error'' = Inr e \<longrightarrow> (\<exists>m. get_prop d ''like_count'' = Inr m))
   \<and> get_prop JNull ''error'' = Inl TypeError"
proof (intro conjI impI)
  assume "likeCountDisplay w = Selector_error"
  then show "click w = w" and "click_settled out w = w"
    by (simp_all add: click_def click_settled_def)
next
  assume "likeCountDisplay w \<noteq> Selector_error"
  then show "widget_requests (click w)
          = widget_requests w @ [POST (''/toggle_count/'' @ attr_text (data_car_id w))
                                   (JObj [(''liked'', JBool (\<not> liked_flag w))])]"
    and "widget_requests (click_settled out w) = widget_requests (click w)"
    by (auto simp: click_settled_def click_def toggle_settled_def Let_def
          split: fetch_outcome.splits sum.splits option.splits lookup.splits)
next
  assume h: "likeCountDisplay w \<noteq> Selector_error
        \<and> (out = Rejected \<or> out = Not_json
             \<or> out = Parsed d \<and> get_prop d ''error'' = Inl f
             \<or> out = Parsed d \<and> get_prop d ''error'' = Inr e \<and> truthy e
             \<or> out = Parsed d \<and> get_prop d ''error'' = Inr e \<and> \<not> truthy e
                 \<and> likeCountDisplay w = No_element)"
  then show "likeCountDisplay (click_settled out w) = likeCountDisplay w"
    and "data_liked (click_settled out w) = data_liked w"
    and "(click_settled out w)\<lparr>widget_console := widget_console w\<rparr> = click w"
    and "length (widget_console (click_settled out w)) = Suc (length (widget_console w))"
    by (auto simp: click_settled_def click_def toggle_settled_def Let_def
          split: lookup.splits)
next
  assume "out = Parsed d \<and> get_prop d ''error'' = Inr e \<and> \<not> truthy e
        \<and> get_prop d ''like_count'' = Inr n \<and> likeCountDisplay w = Element t"
  then show "likeCountDisplay (click_settled out w) = Element n"
    and "data_liked (click_settled out w) = Some (bool_text (\<not> liked_flag w))"
    and "liked_flag (click_settled out w) = (\<not> liked_flag w)"
    and "widget_console (click_settled out w) = widget_console w"
    by (auto simp: click_settled_def click_def toggle_settled_def Let_def liked_flag_def
          bool_text_def)
next
  assume "get_prop d ''error'' = Inr e"
  then show "\<exists>m. get_prop d ''like_count'' = Inr m"
    by (cases d) (auto split: option.splits)
next
  show "get_prop JNull ''error'' = Inl TypeError" by simp
qed

theorem like_toggle_settlement_witness:
  "likeCountDisplay (like_button\<lparr>likeCountDisplay := Selector_error\<rparr>) = Selector_error
   \<and> widget_requests (click (like_button\<lparr>likeCountDisplay := Selector_error\<rparr>)) = []
   \<and> likeCountDisplay like_button = Element (JStr ''4'')
   \<and> widget_requests (click like_button)
       = [POST ''/toggle_count/3'' (JObj [(''liked'', JBool True)])]
   \<and> data_liked (click_settled Rejected like_button) = Some ''false''
   \<and> get_prop JNull ''error'' = Inl TypeError
   \<and> data_liked (click_settled (Parsed JNull) like_button) = Some ''false''
   \<and> widget_console (click_settled (Parsed JNull) like_button) = [Error_failure TypeError]
   \<and> get_prop (JObj [(''error'', JStr ''no such car'')]) ''error'' = Inr (JStr ''no such car'')
   \<and> truthy (JStr ''no such car'')
   \<and> data_liked (click_settled (Parsed (JObj [(''error'', JStr ''no such car'')])) like_button)
       = Some ''false''
   \<and> likeCountDisplay (click_settled (Parsed (JObj [(''error'', JStr ''no such car'')])) like_button)
       = Element (JStr ''4'')
   \<and> get_prop (JObj [(''like_count'', JNum 5)]) ''error'' = Inr JUndefined
   \<and> \<not> truthy JUndefined
   \<and> get_prop (JObj [(''like_count'', JNum 5)]) ''like_count'' = Inr (JNum 5)
   \<and> data_liked (click_settled (Parsed (JObj [(''like_count'', JNum 5)]))
                    (like_button\<lparr>likeCountDisplay := No_element\<rparr>)) = Some ''false''
   \<and> likeCountDisplay (click_settled (Parsed (JObj [(''like_count'', JNum 5)])) like_button)
       = Element (JNum 5)
   \<and> data_liked (click_settled (Parsed (JObj [(''like_count'', JNum 5)])) like_button)
       = Some ''true''"
  using like_toggle_settlement [where w = "like_button\<lparr>likeCountDisplay := Selector_error\<rparr>"
        and out = Rejected and d = JNull and f = TypeError and e = JNull and n = JUndefined
        and t = "JStr ''4''"]
    like_toggle_settlement [where w = like_button and out = Rejected and d = JNull
        and f = TypeError and e = JNull and n = JUndefined and t = "JStr ''4''"]
    like_toggle_settlement [where w = like_button and out = "Parsed JNull" and d = JNull
        and f = TypeError and e = JNull and n = JUndefined and t = "JStr ''4''"]
    like_toggle_settlement [where w = like_button
        and out = "Parsed (JObj [(''error'', JStr ''no such car'')])"
        and d = "JObj [(''error'', JStr ''no such car'')]" and f = TypeError
        and e = "JStr ''no such car''" and n = JUndefined and t = "JStr ''4''"]
    like_toggle_settlement [where w = "like_button\<lparr>likeCountDisplay := No_element\<rparr>"
        and out = "Parsed (JObj [(''like_count'', JNum 5)])"
        and d = "JObj [(''like_count'', JNum 5)]" and f = TypeError and e = JUndefined
        and n = "JNum 5" and t = "JStr ''4''"]
    like_toggle_settlement [where w = like_button
        and out = "Parsed (JObj [(''like_count'', JNum 5)])"
        and d = "JObj [(''like_count'', JNum 5)]" and f = TypeError and e = JUndefined
        and n = "JNum 5" and t = "JStr ''4''"]
  by (simp add: like_button_def liked_flag_def bool_text_def attr_text_def click_def
        click_settled_def toggle_settled_def)

text \<open>
  The response \<open>{"error": ""}\<close> holds an \<open>error\<close>, but an empty string is falsy: nothing
  is logged, the flag flips from \<open>false\<close> to \<open>true\<close> and the display is overwritten with
  the absent \<open>like_count\<close>.
\<close>

theorem like_toggle_empty_error:
  "get_prop (JObj [(''error'', JStr '''')]) ''error'' = Inr (JStr '''')
   \<and> data_liked like_button = Some ''false''
   \<and> data_liked (click_settled (Parsed (JObj [(''error'', JStr '''')])) like_button) = Some ''true''
   \<and> likeCountDisplay like_button = Element (JStr ''4'')
   \<and> likeCountDisplay (click_settled (Parsed (JObj [(''error'', JStr '''')])) like_button)
       = Element JUndefined
   \<and> widget_console (click_settled (Parsed (JObj [(''error'', JStr '''')])) like_button) = []"
  by (simp add: like_button_def click_settled_def click_def toggle_settled_def liked_flag_def
        bool_text_def Let_def)

end
